theory Spec2Isabelle
  imports Main
begin

section \<open>Python exceptions and outcomes\<close>

text \<open>
  The two source files raise nothing themselves; what can escape them is the exception of a
  failed module import (epics\_plugin.py) and the IndexError of a list subscript
  (multi\_axis\_viewbox.py). \<open>ImportError\<close> stands for the class and its subclasses
  (ModuleNotFoundError), which is what \<^verbatim>\<open>except ImportError\<close> catches.
\<close>

datatype py_module = psp_plugin | pyepics_plugin

datatype py_exception =
    ImportError py_module
  | OtherException py_module
  | IndexError

text \<open>
  A method either returns or raises; the object it was mutating is kept in both cases,
  since Python does not undo the assignments made before a raise.
\<close>

datatype 's outcome = Returned 's | Raised py_exception 's

fun final_state :: "'s outcome \<Rightarrow> 's" where
  "final_state (Returned s) = s"
| "final_state (Raised e s) = s"

fun has_returned :: "'s outcome \<Rightarrow> bool" where
  "has_returned (Returned s) = True"
| "has_returned (Raised e s) = False"

section \<open>EPICS backend selector: pydm/data\_plugins/epics\_plugin.py\<close>

datatype backend = PSPPlugin | PyEPICSPlugin

text \<open>
  What the module body reads from its surroundings: the environment variable, what importing
  each sibling module does (\<open>None\<close>: it loads; \<open>Some e\<close>: it raises \<open>e\<close>), and the
  \<open>protocol\<close> class attribute of the two plugin classes as their own modules leave it.
\<close>

record process =
  PYDM_EPICS_LIB :: "string option"
  import_raises :: "py_module \<Rightarrow> py_exception option"
  class_protocol :: "backend \<Rightarrow> string option"

text \<open>The module namespace of epics\_plugin once its body has run to the end.\<close>

record epics_plugin_module =
  EPICS_LIB :: "string option"
  EPICSPlugin :: backend
  protocol :: "backend \<Rightarrow> string option"

text \<open>\<^verbatim>\<open>from .m import C\<close>: the class \<open>C\<close>, or the exception the import raises.\<close>

definition import_from :: "process \<Rightarrow> py_module \<Rightarrow> backend \<Rightarrow> py_exception + backend" where
  "import_from p m c = (case import_raises p m of None \<Rightarrow> Inr c | Some e \<Rightarrow> Inl e)"

text \<open>
  Lines 6 to 19. The first component lists the imports attempted, in order. In the
  \<^verbatim>\<open>try\<close> branch only an ImportError is handled; any other exception leaves the module.
\<close>

definition select_backend :: "process \<Rightarrow> py_module list \<times> (py_exception + backend)" where
  "select_backend p =
     (if PYDM_EPICS_LIB p = Some ''pyepics'' then
        ([pyepics_plugin], import_from p pyepics_plugin PyEPICSPlugin)
      else if PYDM_EPICS_LIB p = Some ''pyca'' then
        ([psp_plugin], import_from p psp_plugin PSPPlugin)
      else
        (case import_from p psp_plugin PSPPlugin of
           Inr c \<Rightarrow> ([psp_plugin], Inr c)
         | Inl (ImportError m) \<Rightarrow>
             ([psp_plugin, pyepics_plugin], import_from p pyepics_plugin PyEPICSPlugin)
         | Inl e \<Rightarrow> ([psp_plugin], Inl e)))"

text \<open>The whole module body: the selection, then line 20, \<^verbatim>\<open>EPICSPlugin.protocol = "ca"\<close>.\<close>

definition load_epics_plugin ::
    "process \<Rightarrow> py_module list \<times> (py_exception + epics_plugin_module)" where
  "load_epics_plugin p =
     (case select_backend p of
        (tried, Inl e) \<Rightarrow> (tried, Inl e)
      | (tried, Inr c) \<Rightarrow>
          (tried, Inr \<lparr>EPICS_LIB = PYDM_EPICS_LIB p, EPICSPlugin = c,
                       protocol = (class_protocol p)(c := Some ''ca'')\<rparr>))"

text \<open>Vocabulary for the claims about failure.\<close>

definition missing :: "process \<Rightarrow> py_module \<Rightarrow> bool" where
  "missing p m = (case import_raises p m of Some (ImportError x) \<Rightarrow> True | _ \<Rightarrow> False)"

fun raises_ImportError :: "py_module list \<times> (py_exception + 'a) \<Rightarrow> bool" where
  "raises_ImportError (tried, Inl (ImportError m)) = True"
| "raises_ImportError (tried, r) = False"

definition attempted :: "py_module list \<times> 'a \<Rightarrow> py_module list" where
  "attempted r = fst r"

definition bound_to :: "py_module list \<times> (py_exception + epics_plugin_module) \<Rightarrow> backend option" where
  "bound_to r = (case snd r of Inl e \<Rightarrow> None | Inr m \<Rightarrow> Some (EPICSPlugin m))"

text \<open>Concrete installations used as test inputs.\<close>

definition only_psp_installed :: "py_module \<Rightarrow> py_exception option" where
  "only_psp_installed m = (if m = pyepics_plugin then Some (ImportError pyepics_plugin) else None)"

definition only_pyepics_installed :: "py_module \<Rightarrow> py_exception option" where
  "only_pyepics_installed m = (if m = psp_plugin then Some (ImportError psp_plugin) else None)"

definition both_installed :: "py_module \<Rightarrow> py_exception option" where
  "both_installed m = None"

definition nothing_installed :: "py_module \<Rightarrow> py_exception option" where
  "nothing_installed m = Some (ImportError m)"

definition fresh_classes :: "backend \<Rightarrow> string option" where
  "fresh_classes c = None"

section \<open>Multi-axis view box: pydm/widgets/multi\_axis\_viewbox.py\<close>

text \<open>
  The class sits on top of pyqtgraph's ViewBox and Qt. Every call that leaves this file
  (a signal emission, a superclass handler, a method of a stacked view) is recorded, in
  order, in the \<open>calls\<close> field of the object. Events \<open>'e\<close> and rectangles \<open>'r\<close> are
  opaque to this file: it only passes them on.
\<close>

datatype ('e, 'r) call =
    sigMouseWheelZoomed_emit 'e "int option"
  | sigMouseDragged_emit 'e "int option"
  | sigHistoryChanged_emit int
  | super_wheelEvent 'e "int option"
  | super_mouseDragEvent 'e "int option"
  | enableAutoRange
  | showAxRect 'r
  | setGeometry nat 'r
  | linkedViewChanged nat int

text \<open>A stacked view: its identity and its \<open>XAxis\<close> attribute.\<close>

record stacked_view =
  view_id :: nat
  XAxis :: int

text \<open>
  \<open>stackedViews\<close> is a WeakSet; the list holds its live members in the order the
  iteration yields them. \<open>axHistory\<close> and \<open>axHistoryPointer\<close> are inherited from ViewBox.
\<close>

record ('e, 'r) MultiAxisViewBox =
  stackedViews :: "stacked_view list"
  axHistory :: "'r list"
  axHistoryPointer :: int
  sceneBoundingRect :: 'r
  calls :: "('e, 'r) call list"

definition do_call ::
    "('e, 'r) call \<Rightarrow> ('e, 'r) MultiAxisViewBox \<Rightarrow> ('e, 'r) MultiAxisViewBox" where
  "do_call c self = self\<lparr>calls := calls self @ [c]\<rparr>"

text \<open>Python's \<^verbatim>\<open>xs[i]\<close>: a negative index counts from the end, anything else out of range raises.\<close>

definition list_getitem :: "'a list \<Rightarrow> int \<Rightarrow> py_exception + 'a" where
  "list_getitem xs i =
     (if 0 \<le> i \<and> i < int (length xs) then Inr (xs ! nat i)
      else if i < 0 \<and> - int (length xs) \<le> i then Inr (xs ! nat (int (length xs) + i))
      else Inl IndexError)"

subsection \<open>updateStackedViews\<close>

fun updateStackedViews_loop ::
    "stacked_view list \<Rightarrow> ('e, 'r) MultiAxisViewBox \<Rightarrow> ('e, 'r) MultiAxisViewBox" where
  "updateStackedViews_loop [] self = self"
| "updateStackedViews_loop (view # rest) self =
     updateStackedViews_loop rest
       (do_call (linkedViewChanged (view_id view) (XAxis view))
          (do_call (setGeometry (view_id view) (sceneBoundingRect self)) self))"

definition updateStackedViews :: "('e, 'r) MultiAxisViewBox \<Rightarrow> ('e, 'r) MultiAxisViewBox" where
  "updateStackedViews self = updateStackedViews_loop (stackedViews self) self"

subsection \<open>wheelEvent and mouseDragEvent\<close>

definition wheelEvent ::
    "'e \<Rightarrow> int option \<Rightarrow> ('e, 'r) MultiAxisViewBox \<Rightarrow> ('e, 'r) MultiAxisViewBox" where
  "wheelEvent ev axis self =
     (let self = (if axis = None then do_call (sigMouseWheelZoomed_emit ev axis) self else self)
      in do_call (super_wheelEvent ev axis) self)"

definition mouseDragEvent ::
    "'e \<Rightarrow> int option \<Rightarrow> ('e, 'r) MultiAxisViewBox \<Rightarrow> ('e, 'r) MultiAxisViewBox" where
  "mouseDragEvent ev axis self =
     (let self = (if axis = None then do_call (sigMouseDragged_emit ev axis) self else self)
      in do_call (super_mouseDragEvent ev axis) self)"

subsection \<open>scaleHistory\<close>

text \<open>Lines 116 to 121: the if/elif chain that moves the pointer.\<close>

definition move_pointer :: "int \<Rightarrow> ('e, 'r) MultiAxisViewBox \<Rightarrow> ('e, 'r) MultiAxisViewBox" where
  "move_pointer d self =
     (if d = - 1 \<and> axHistoryPointer self \<noteq> - 1 then
        self\<lparr>axHistoryPointer := axHistoryPointer self - 1\<rparr>
      else if d = 1 \<and> axHistoryPointer self \<noteq> int (length (axHistory self)) - 1 then
        self\<lparr>axHistoryPointer := axHistoryPointer self + 1\<rparr>
      else if d = 0 then
        self\<lparr>axHistoryPointer := - 1\<rparr>
      else self)"

text \<open>Lines 123 to 126: apply the view the pointer now selects.\<close>

definition apply_pointer :: "('e, 'r) MultiAxisViewBox \<Rightarrow> ('e, 'r) MultiAxisViewBox outcome" where
  "apply_pointer self =
     (if axHistoryPointer self = - 1 then Returned (do_call enableAutoRange self)
      else (case list_getitem (axHistory self) (axHistoryPointer self) of
              Inl e \<Rightarrow> Raised e self
            | Inr rect \<Rightarrow> Returned (do_call (showAxRect rect) self)))"

definition scaleHistory ::
    "int \<Rightarrow> ('e, 'r) MultiAxisViewBox \<Rightarrow> ('e, 'r) MultiAxisViewBox outcome" where
  "scaleHistory d self =
     (let self = do_call (sigHistoryChanged_emit d) self
      in if length (axHistory self) \<noteq> 0 then apply_pointer (move_pointer d self)
         else Returned self)"

subsection \<open>keyPressEvent\<close>

record QKeyEvent =
  text_of :: string
  key :: int
  isAccepted :: bool

definition Key_Backspace :: int where
  "Key_Backspace = 0x01000003"

fun with_event :: "QKeyEvent \<Rightarrow> 's outcome \<Rightarrow> (QKeyEvent \<times> 's) outcome" where
  "with_event ev (Returned s) = Returned (ev, s)"
| "with_event ev (Raised e s) = Raised e (ev, s)"

definition keyPressEvent ::
    "QKeyEvent \<Rightarrow> ('e, 'r) MultiAxisViewBox \<Rightarrow> (QKeyEvent \<times> ('e, 'r) MultiAxisViewBox) outcome" where
  "keyPressEvent ev0 self =
     (let ev = ev0\<lparr>isAccepted := True\<rparr>
      in if text_of ev = ''-'' then with_event ev (scaleHistory (- 1) self)
         else if text_of ev \<in> set [''+'', ''=''] then with_event ev (scaleHistory 1 self)
         else if key ev = Key_Backspace then with_event ev (scaleHistory 0 self)
         else Returned (ev\<lparr>isAccepted := False\<rparr>, self))"

text \<open>Vocabulary for the claims about the view box.\<close>

definition pointer_in_range :: "('e, 'r) MultiAxisViewBox \<Rightarrow> bool" where
  "pointer_in_range self =
     (- 1 \<le> axHistoryPointer self \<and> axHistoryPointer self \<le> int (length (axHistory self)) - 1)"

definition new_calls ::
    "('e, 'r) MultiAxisViewBox \<Rightarrow> ('e, 'r) MultiAxisViewBox \<Rightarrow> ('e, 'r) call list" where
  "new_calls before after = drop (length (calls before)) (calls after)"

fun is_history_emit :: "('e, 'r) call \<Rightarrow> bool" where
  "is_history_emit (sigHistoryChanged_emit d) = True"
| "is_history_emit c = False"

text \<open>Concrete view boxes used as test inputs: one with two recorded rectangles and two
  stacked views, one with no history at all.\<close>

definition example_box :: "int \<Rightarrow> (nat, nat) MultiAxisViewBox" where
  "example_box ptr =
     \<lparr>stackedViews = [\<lparr>view_id = 1, XAxis = 0\<rparr>, \<lparr>view_id = 2, XAxis = 0\<rparr>],
      axHistory = [10, 20], axHistoryPointer = ptr, sceneBoundingRect = 7, calls = []\<rparr>"

definition empty_box :: "(nat, nat) MultiAxisViewBox" where
  "empty_box =
     \<lparr>stackedViews = [], axHistory = [], axHistoryPointer = - 1, sceneBoundingRect = 7, calls = []\<rparr>"

section \<open>Properties of the backend selector\<close>

text \<open>
  C2 (as amended). Loading the module ends in an ImportError exactly when every import of the
  branch taken raises one: the PyEPICS plugin under the override \<open>pyepics\<close>, the PSP
  plugin under the override \<open>pyca\<close>, and both plugins under any other value or none.
  When neither backend can be imported the load therefore fails whatever the override is,
  and whenever the load fails it is with the exception of the last import attempted,
  unchanged.
\<close>

theorem import_error_characterised:
  "(raises_ImportError (load_epics_plugin p) \<longleftrightarrow>
      (if PYDM_EPICS_LIB p = Some ''pyepics'' then missing p pyepics_plugin
       else if PYDM_EPICS_LIB p = Some ''pyca'' then missing p psp_plugin
       else missing p psp_plugin \<and> missing p pyepics_plugin))
   \<and> (missing p psp_plugin \<and> missing p pyepics_plugin \<longrightarrow>
        raises_ImportError (load_epics_plugin p))
   \<and> (\<forall>e. snd (load_epics_plugin p) = Inl e \<longrightarrow>
        import_raises p (last (attempted (load_epics_plugin p))) = Some e)"
  by (auto simp: load_epics_plugin_def select_backend_def import_from_def missing_def attempted_def
      split: option.splits py_exception.splits sum.splits prod.splits)

theorem import_error_characterised_witness:
  "missing \<lparr>PYDM_EPICS_LIB = Some ''foo'', import_raises = nothing_installed,
             class_protocol = fresh_classes\<rparr> psp_plugin
   \<and> missing \<lparr>PYDM_EPICS_LIB = Some ''foo'', import_raises = nothing_installed,
               class_protocol = fresh_classes\<rparr> pyepics_plugin
   \<and> raises_ImportError
        (load_epics_plugin \<lparr>PYDM_EPICS_LIB = Some ''foo'', import_raises = nothing_installed,
                            class_protocol = fresh_classes\<rparr>)
   \<and> snd (load_epics_plugin \<lparr>PYDM_EPICS_LIB = Some ''foo'', import_raises = nothing_installed,
                              class_protocol = fresh_classes\<rparr>)
       = Inl (ImportError pyepics_plugin)"
proof -
  let ?p = "\<lparr>PYDM_EPICS_LIB = Some ''foo'', import_raises = nothing_installed,
             class_protocol = fresh_classes\<rparr>"
  have m: "missing ?p psp_plugin \<and> missing ?p pyepics_plugin"
    by (simp add: missing_def nothing_installed_def)
  have l: "snd (load_epics_plugin ?p) = Inl (ImportError pyepics_plugin)"
    by (simp add: load_epics_plugin_def select_backend_def import_from_def nothing_installed_def)
  from m import_error_characterised [of ?p] have "raises_ImportError (load_epics_plugin ?p)"
    by blast
  with m l show ?thesis by simp
qed

text \<open>
  The claim C2 as it is written fails: with the override \<open>pyepics\<close> and only the PSP
  backend installed, the load raises an ImportError although a backend is installed and the
  override is a supported one.
\<close>

theorem import_error_counterexample:
  "raises_ImportError
     (load_epics_plugin \<lparr>PYDM_EPICS_LIB = Some ''pyepics'', import_raises = only_psp_installed,
                         class_protocol = fresh_classes\<rparr>)
   \<and> \<not> missing \<lparr>PYDM_EPICS_LIB = Some ''pyepics'', import_raises = only_psp_installed,
                  class_protocol = fresh_classes\<rparr> psp_plugin"
  by (simp add: load_epics_plugin_def select_backend_def import_from_def missing_def
      only_psp_installed_def)

text \<open>
  C5. With PYDM\_EPICS\_LIB absent the PSP plugin is imported first and, if that import
  succeeds, EPICSPlugin is PSPPlugin and nothing else is imported. The PyEPICS plugin is
  imported exactly when the PSP import raised an ImportError, and EPICSPlugin is then
  PyEPICSPlugin; any other exception of the PSP import leaves the module as it is.
\<close>

theorem default_prefers_psp:
  assumes "PYDM_EPICS_LIB p = None"
  shows "hd (attempted (load_epics_plugin p)) = psp_plugin
    \<and> (import_raises p psp_plugin = None \<longrightarrow>
         attempted (load_epics_plugin p) = [psp_plugin]
         \<and> bound_to (load_epics_plugin p) = Some PSPPlugin)
    \<and> (pyepics_plugin \<in> set (attempted (load_epics_plugin p)) \<longleftrightarrow> missing p psp_plugin)
    \<and> (missing p psp_plugin \<and> import_raises p pyepics_plugin = None \<longrightarrow>
         attempted (load_epics_plugin p) = [psp_plugin, pyepics_plugin]
         \<and> bound_to (load_epics_plugin p) = Some PyEPICSPlugin)
    \<and> (\<forall>e. import_raises p psp_plugin = Some e \<and> \<not> missing p psp_plugin \<longrightarrow>
         load_epics_plugin p = ([psp_plugin], Inl e))"
  using assms
  by (auto simp: load_epics_plugin_def select_backend_def import_from_def missing_def attempted_def
      bound_to_def split: option.splits py_exception.splits sum.splits prod.splits)

theorem default_prefers_psp_witness:
  "PYDM_EPICS_LIB \<lparr>PYDM_EPICS_LIB = None, import_raises = both_installed,
                    class_protocol = fresh_classes\<rparr> = None
   \<and> bound_to (load_epics_plugin \<lparr>PYDM_EPICS_LIB = None, import_raises = both_installed,
                                   class_protocol = fresh_classes\<rparr>) = Some PSPPlugin
   \<and> missing \<lparr>PYDM_EPICS_LIB = None, import_raises = only_pyepics_installed,
               class_protocol = fresh_classes\<rparr> psp_plugin
   \<and> attempted (load_epics_plugin \<lparr>PYDM_EPICS_LIB = None,
         import_raises = only_pyepics_installed, class_protocol = fresh_classes\<rparr>)
       = [psp_plugin, pyepics_plugin]
   \<and> bound_to (load_epics_plugin \<lparr>PYDM_EPICS_LIB = None,
         import_raises = only_pyepics_installed, class_protocol = fresh_classes\<rparr>)
       = Some PyEPICSPlugin"
proof -
  let ?p = "\<lparr>PYDM_EPICS_LIB = None, import_raises = both_installed,
             class_protocol = fresh_classes\<rparr>"
  let ?q = "\<lparr>PYDM_EPICS_LIB = None, import_raises = only_pyepics_installed,
             class_protocol = fresh_classes\<rparr>"
  have ep: "PYDM_EPICS_LIB ?p = None" and eq: "PYDM_EPICS_LIB ?q = None"
    by simp_all
  have ip: "import_raises ?p psp_plugin = None"
    by (simp add: both_installed_def)
  have mq: "missing ?q psp_plugin \<and> import_raises ?q pyepics_plugin = None"
    by (simp add: missing_def only_pyepics_installed_def)
  from default_prefers_psp [OF ep] ip
  have a: "bound_to (load_epics_plugin ?p) = Some PSPPlugin"
    by blast
  from default_prefers_psp [OF eq] mq
  have b: "attempted (load_epics_plugin ?q) = [psp_plugin, pyepics_plugin]
           \<and> bound_to (load_epics_plugin ?q) = Some PyEPICSPlugin"
    by blast
  from a b mq show ?thesis by simp
qed

text \<open>
  C6. With PYDM\_EPICS\_LIB set to \<open>pyepics\<close> only the PyEPICS plugin is imported and
  EPICSPlugin is PyEPICSPlugin; with \<open>pyca\<close> only the PSP plugin is imported and
  EPICSPlugin is PSPPlugin. In both cases no second import is attempted: if the forced
  import raises, its exception leaves the module and nothing is bound.
\<close>

theorem forced_backend_no_fallback:
  "(PYDM_EPICS_LIB p = Some ''pyepics'' \<longrightarrow>
      attempted (load_epics_plugin p) = [pyepics_plugin]
      \<and> bound_to (load_epics_plugin p) =
          (if import_raises p pyepics_plugin = None then Some PyEPICSPlugin else None)
      \<and> (\<forall>e. import_raises p pyepics_plugin = Some e \<longrightarrow> snd (load_epics_plugin p) = Inl e))
   \<and> (PYDM_EPICS_LIB p = Some ''pyca'' \<longrightarrow>
      attempted (load_epics_plugin p) = [psp_plugin]
      \<and> bound_to (load_epics_plugin p) =
          (if import_raises p psp_plugin = None then Some PSPPlugin else None)
      \<and> (\<forall>e. import_raises p psp_plugin = Some e \<longrightarrow> snd (load_epics_plugin p) = Inl e))"
  by (auto simp: load_epics_plugin_def select_backend_def import_from_def attempted_def
      bound_to_def split: option.splits)

theorem forced_backend_no_fallback_witness:
  "attempted (load_epics_plugin \<lparr>PYDM_EPICS_LIB = Some ''pyepics'',
       import_raises = both_installed, class_protocol = fresh_classes\<rparr>) = [pyepics_plugin]
   \<and> bound_to (load_epics_plugin \<lparr>PYDM_EPICS_LIB = Some ''pyepics'',
       import_raises = both_installed, class_protocol = fresh_classes\<rparr>) = Some PyEPICSPlugin
   \<and> attempted (load_epics_plugin \<lparr>PYDM_EPICS_LIB = Some ''pyca'',
       import_raises = both_installed, class_protocol = fresh_classes\<rparr>) = [psp_plugin]
   \<and> bound_to (load_epics_plugin \<lparr>PYDM_EPICS_LIB = Some ''pyca'',
       import_raises = both_installed, class_protocol = fresh_classes\<rparr>) = Some PSPPlugin
   \<and> snd (load_epics_plugin \<lparr>PYDM_EPICS_LIB = Some ''pyca'',
       import_raises = only_pyepics_installed, class_protocol = fresh_classes\<rparr>)
       = Inl (ImportError psp_plugin)"
  using forced_backend_no_fallback [of "\<lparr>PYDM_EPICS_LIB = Some ''pyepics'',
          import_raises = both_installed, class_protocol = fresh_classes\<rparr>"]
        forced_backend_no_fallback [of "\<lparr>PYDM_EPICS_LIB = Some ''pyca'',
          import_raises = both_installed, class_protocol = fresh_classes\<rparr>"]
        forced_backend_no_fallback [of "\<lparr>PYDM_EPICS_LIB = Some ''pyca'',
          import_raises = only_pyepics_installed, class_protocol = fresh_classes\<rparr>"]
  by (simp add: both_installed_def only_pyepics_installed_def)

text \<open>
  C9. Whenever the module load completes, whichever branch chose the backend, the
  \<open>protocol\<close> attribute of the class bound to EPICSPlugin is \<open>ca\<close>.
\<close>

theorem protocol_is_ca:
  assumes "snd (load_epics_plugin p) = Inr m"
  shows "protocol m (EPICSPlugin m) = Some ''ca''"
  using assms
  by (auto simp: load_epics_plugin_def split: prod.splits sum.splits)

theorem protocol_is_ca_witness:
  "snd (load_epics_plugin \<lparr>PYDM_EPICS_LIB = None, import_raises = only_pyepics_installed,
                            class_protocol = fresh_classes\<rparr>)
     = Inr \<lparr>EPICS_LIB = None, EPICSPlugin = PyEPICSPlugin,
             protocol = fresh_classes(PyEPICSPlugin := Some ''ca'')\<rparr>
   \<and> protocol \<lparr>EPICS_LIB = None, EPICSPlugin = PyEPICSPlugin,
                protocol = fresh_classes(PyEPICSPlugin := Some ''ca'')\<rparr>
        (EPICSPlugin \<lparr>EPICS_LIB = None, EPICSPlugin = PyEPICSPlugin,
                       protocol = fresh_classes(PyEPICSPlugin := Some ''ca'')\<rparr>)
     = Some ''ca''"
proof -
  have l: "snd (load_epics_plugin \<lparr>PYDM_EPICS_LIB = None,
                  import_raises = only_pyepics_installed, class_protocol = fresh_classes\<rparr>)
     = Inr \<lparr>EPICS_LIB = None, EPICSPlugin = PyEPICSPlugin,
             protocol = fresh_classes(PyEPICSPlugin := Some ''ca'')\<rparr>"
    by (simp add: load_epics_plugin_def select_backend_def import_from_def
        only_pyepics_installed_def)
  from l protocol_is_ca [OF l] show ?thesis by blast
qed

text \<open>
  C10. A value of PYDM\_EPICS\_LIB other than exactly \<open>pyepics\<close> or \<open>pyca\<close> selects the
  backend as the unset variable does: the same imports are attempted in the same order and
  the same class is bound or the same exception raised, the loads differing only in the
  value recorded in EPICS\_LIB. The value itself never causes an error: with PSP importable
  the load binds PSPPlugin, with PSP missing and PyEPICS importable it binds PyEPICSPlugin.
\<close>

theorem unrecognised_value_as_unset:
  assumes "v \<noteq> ''pyepics''" and "v \<noteq> ''pyca''"
  shows "select_backend (p\<lparr>PYDM_EPICS_LIB := Some v\<rparr>) = select_backend (p\<lparr>PYDM_EPICS_LIB := None\<rparr>)
    \<and> load_epics_plugin (p\<lparr>PYDM_EPICS_LIB := Some v\<rparr>) =
        map_prod id (map_sum id (\<lambda>m. m\<lparr>EPICS_LIB := Some v\<rparr>))
          (load_epics_plugin (p\<lparr>PYDM_EPICS_LIB := None\<rparr>))
    \<and> (import_raises p psp_plugin = None \<longrightarrow>
         bound_to (load_epics_plugin (p\<lparr>PYDM_EPICS_LIB := Some v\<rparr>)) = Some PSPPlugin)
    \<and> (missing p psp_plugin \<and> import_raises p pyepics_plugin = None \<longrightarrow>
         bound_to (load_epics_plugin (p\<lparr>PYDM_EPICS_LIB := Some v\<rparr>)) = Some PyEPICSPlugin)"
  using assms
  by (auto simp: load_epics_plugin_def select_backend_def import_from_def missing_def
      bound_to_def split: option.splits py_exception.splits sum.splits prod.splits)

theorem unrecognised_value_as_unset_witness:
  "''PyEPICS'' \<noteq> ''pyepics'' \<and> ''PyEPICS'' \<noteq> ''pyca''
   \<and> select_backend (\<lparr>PYDM_EPICS_LIB = None, import_raises = only_pyepics_installed,
                        class_protocol = fresh_classes\<rparr>\<lparr>PYDM_EPICS_LIB := Some ''PyEPICS''\<rparr>)
     = select_backend (\<lparr>PYDM_EPICS_LIB = None, import_raises = only_pyepics_installed,
                        class_protocol = fresh_classes\<rparr>\<lparr>PYDM_EPICS_LIB := None\<rparr>)
   \<and> bound_to (load_epics_plugin (\<lparr>PYDM_EPICS_LIB = None,
        import_raises = only_pyepics_installed,
        class_protocol = fresh_classes\<rparr>\<lparr>PYDM_EPICS_LIB := Some ''PyEPICS''\<rparr>))
     = Some PyEPICSPlugin"
proof -
  let ?p = "\<lparr>PYDM_EPICS_LIB = None, import_raises = only_pyepics_installed,
             class_protocol = fresh_classes\<rparr>"
  have a: "''PyEPICS'' \<noteq> ''pyepics''" and b: "''PyEPICS'' \<noteq> ''pyca''"
    by simp_all
  have m: "missing ?p psp_plugin \<and> import_raises ?p pyepics_plugin = None"
    by (simp add: missing_def only_pyepics_installed_def)
  from unrecognised_value_as_unset [OF a b, of ?p] m a b show ?thesis
    by blast
qed

section \<open>Properties of the view box\<close>

lemma calls_do_call: "calls (do_call c self) = calls self @ [c]"
  by (simp add: do_call_def)

lemma new_calls_append: "calls after = calls before @ cs \<Longrightarrow> new_calls before after = cs"
  by (simp add: new_calls_def)

lemma loop_calls:
  "calls (updateStackedViews_loop vs self) =
     calls self @ concat (map (\<lambda>view. [setGeometry (view_id view) (sceneBoundingRect self),
                                       linkedViewChanged (view_id view) (XAxis view)]) vs)"
  by (induction vs arbitrary: self) (simp_all add: do_call_def)

text \<open>
  C8. updateStackedViews makes, for each member of the stacked-view set in turn and for
  nothing else, a setGeometry call with the scene bounding rectangle of the top-level view
  followed by a linkedViewChanged call for that member's x axis; every member receives both.
\<close>

theorem updateStackedViews_reaches_all:
  "new_calls self (updateStackedViews self) =
     concat (map (\<lambda>view. [setGeometry (view_id view) (sceneBoundingRect self),
                          linkedViewChanged (view_id view) (XAxis view)]) (stackedViews self))
   \<and> (\<forall>view \<in> set (stackedViews self).
         setGeometry (view_id view) (sceneBoundingRect self)
           \<in> set (new_calls self (updateStackedViews self))
         \<and> linkedViewChanged (view_id view) (XAxis view)
           \<in> set (new_calls self (updateStackedViews self)))"
proof -
  have eq: "new_calls self (updateStackedViews self) =
     concat (map (\<lambda>view. [setGeometry (view_id view) (sceneBoundingRect self),
                          linkedViewChanged (view_id view) (XAxis view)]) (stackedViews self))"
    unfolding updateStackedViews_def by (rule new_calls_append) (rule loop_calls)
  show ?thesis unfolding eq by auto
qed

theorem updateStackedViews_reaches_all_witness:
  "\<lparr>view_id = 2, XAxis = 0\<rparr> \<in> set (stackedViews (example_box 0))
   \<and> setGeometry (view_id \<lparr>view_id = 2, XAxis = 0\<rparr>) (sceneBoundingRect (example_box 0))
        \<in> set (new_calls (example_box 0) (updateStackedViews (example_box 0)))
   \<and> linkedViewChanged (view_id \<lparr>view_id = 2, XAxis = 0\<rparr>) (XAxis \<lparr>view_id = 2, XAxis = 0\<rparr>)
        \<in> set (new_calls (example_box 0) (updateStackedViews (example_box 0)))
   \<and> new_calls (example_box 0) (updateStackedViews (example_box 0))
       = [setGeometry 1 7, linkedViewChanged 1 0, setGeometry 2 7, linkedViewChanged 2 0]"
proof -
  have m: "\<lparr>view_id = 2, XAxis = 0\<rparr> \<in> set (stackedViews (example_box 0))"
    by (simp add: example_box_def)
  note t = updateStackedViews_reaches_all [of "example_box 0"]
  from t m have a:
    "setGeometry (view_id \<lparr>view_id = 2, XAxis = 0\<rparr>) (sceneBoundingRect (example_box 0))
        \<in> set (new_calls (example_box 0) (updateStackedViews (example_box 0)))
     \<and> linkedViewChanged (view_id \<lparr>view_id = 2, XAxis = 0\<rparr>) (XAxis \<lparr>view_id = 2, XAxis = 0\<rparr>)
        \<in> set (new_calls (example_box 0) (updateStackedViews (example_box 0)))"
    by blast
  from t have b: "new_calls (example_box 0) (updateStackedViews (example_box 0))
       = [setGeometry 1 7, linkedViewChanged 1 0, setGeometry 2 7, linkedViewChanged 2 0]"
    by (simp add: example_box_def)
  from m a b show ?thesis by blast
qed

text \<open>
  C7. wheelEvent emits sigMouseWheelZoomed, and mouseDragEvent emits sigMouseDragged, if and
  only if the axis argument is None; the emission comes first and the superclass handler
  second. With an axis given, the superclass handler is the only call made.
\<close>

theorem wheel_drag_rebroadcast:
  "new_calls self (wheelEvent ev axis self) =
     (if axis = None then [sigMouseWheelZoomed_emit ev axis, super_wheelEvent ev axis]
      else [super_wheelEvent ev axis])
   \<and> new_calls self (mouseDragEvent ev axis self) =
     (if axis = None then [sigMouseDragged_emit ev axis, super_mouseDragEvent ev axis]
      else [super_mouseDragEvent ev axis])
   \<and> (sigMouseWheelZoomed_emit ev axis \<in> set (new_calls self (wheelEvent ev axis self))
        \<longleftrightarrow> axis = None)
   \<and> (sigMouseDragged_emit ev axis \<in> set (new_calls self (mouseDragEvent ev axis self))
        \<longleftrightarrow> axis = None)"
  by (simp add: wheelEvent_def mouseDragEvent_def do_call_def new_calls_def)

theorem wheel_drag_rebroadcast_witness:
  "new_calls (example_box 0) (wheelEvent 5 None (example_box 0))
     = [sigMouseWheelZoomed_emit 5 None, super_wheelEvent 5 None]
   \<and> new_calls (example_box 0) (wheelEvent 5 (Some 1) (example_box 0))
     = [super_wheelEvent 5 (Some 1)]
   \<and> new_calls (example_box 0) (mouseDragEvent 5 None (example_box 0))
     = [sigMouseDragged_emit 5 None, super_mouseDragEvent 5 None]
   \<and> new_calls (example_box 0) (mouseDragEvent 5 (Some 0) (example_box 0))
     = [super_mouseDragEvent 5 (Some 0)]"
  using wheel_drag_rebroadcast [of "example_box 0" 5 None]
        wheel_drag_rebroadcast [of "example_box 0" 5 "Some 1"]
        wheel_drag_rebroadcast [of "example_box 0" 5 "Some 0"]
  by simp

lemma move_pointer_fields:
  "axHistory (move_pointer d self) = axHistory self \<and> calls (move_pointer d self) = calls self"
  by (simp add: move_pointer_def)

lemma move_pointer_range:
  "pointer_in_range self \<Longrightarrow> axHistory self \<noteq> [] \<Longrightarrow> pointer_in_range (move_pointer d self)"
  by (auto simp: pointer_in_range_def move_pointer_def)

lemma apply_pointer_in_range:
  assumes "pointer_in_range self"
  shows "apply_pointer self =
     Returned (do_call (if axHistoryPointer self = - 1 then enableAutoRange
                        else showAxRect (axHistory self ! nat (axHistoryPointer self))) self)"
  using assms by (auto simp: apply_pointer_def pointer_in_range_def list_getitem_def)

lemma apply_pointer_state:
  "axHistory (final_state (apply_pointer self)) = axHistory self
   \<and> axHistoryPointer (final_state (apply_pointer self)) = axHistoryPointer self"
  by (simp add: apply_pointer_def do_call_def split: sum.splits)

lemma apply_pointer_calls:
  "\<exists>cs. calls (final_state (apply_pointer self)) = calls self @ cs \<and> filter is_history_emit cs = []"
  by (simp add: apply_pointer_def do_call_def split: sum.splits)

lemma scaleHistory_state:
  "axHistory (final_state (scaleHistory d self)) = axHistory self
   \<and> axHistoryPointer (final_state (scaleHistory d self)) =
       (if axHistory self = [] then axHistoryPointer self
        else axHistoryPointer (move_pointer d self))"
  by (simp add: scaleHistory_def Let_def apply_pointer_state move_pointer_def do_call_def)

lemma scaleHistory_emits:
  "filter is_history_emit (new_calls self (final_state (scaleHistory d self))) =
     [sigHistoryChanged_emit d]
   \<and> hd (new_calls self (final_state (scaleHistory d self))) = sigHistoryChanged_emit d"
proof (cases "axHistory self = []")
  case True
  then show ?thesis by (simp add: scaleHistory_def Let_def do_call_def new_calls_def)
next
  case False
  obtain cs where cs: "calls (final_state (apply_pointer (move_pointer d (do_call (sigHistoryChanged_emit d) self)))) =
      calls (move_pointer d (do_call (sigHistoryChanged_emit d) self)) @ cs" "filter is_history_emit cs = []"
    using apply_pointer_calls by blast
  have "calls (final_state (scaleHistory d self)) = calls self @ sigHistoryChanged_emit d # cs"
    using False cs(1) by (simp add: scaleHistory_def Let_def move_pointer_fields) (simp add: do_call_def)
  then have "new_calls self (final_state (scaleHistory d self)) = sigHistoryChanged_emit d # cs"
    by (rule new_calls_append)
  then show ?thesis using cs(2) by simp
qed

text \<open>
  C1. For d in {-1, 0, 1}, every call of scaleHistory emits sigHistoryChanged with argument
  d, once and before anything else, also when the pointer does not move and when axHistory
  is empty. The history itself is untouched, and a pointer inside [-1, len(axHistory) - 1]
  stays inside it (the call then returns without raising): a backward step from -1 and a
  forward step from len(axHistory) - 1 leave the pointer where it is.
\<close>

theorem scaleHistory_clamps_and_emits:
  assumes "d \<in> {- 1, 0, 1}"
  shows "filter is_history_emit (new_calls self (final_state (scaleHistory d self))) =
           [sigHistoryChanged_emit d]
    \<and> hd (new_calls self (final_state (scaleHistory d self))) = sigHistoryChanged_emit d
    \<and> axHistory (final_state (scaleHistory d self)) = axHistory self
    \<and> (pointer_in_range self \<longrightarrow>
         pointer_in_range (final_state (scaleHistory d self)) \<and> has_returned (scaleHistory d self))
    \<and> (d = - 1 \<and> axHistoryPointer self = - 1 \<longrightarrow>
         axHistoryPointer (final_state (scaleHistory d self)) = axHistoryPointer self)
    \<and> (d = 1 \<and> axHistoryPointer self = int (length (axHistory self)) - 1 \<longrightarrow>
         axHistoryPointer (final_state (scaleHistory d self)) = axHistoryPointer self)"
proof -
  have range: "pointer_in_range (final_state (scaleHistory d self)) \<and> has_returned (scaleHistory d self)"
    if inv: "pointer_in_range self"
  proof (cases "axHistory self = []")
    case True
    with inv show ?thesis
      by (simp add: scaleHistory_def Let_def do_call_def pointer_in_range_def)
  next
    case False
    let ?s = "move_pointer d (do_call (sigHistoryChanged_emit d) self)"
    have "pointer_in_range (do_call (sigHistoryChanged_emit d) self)"
      using inv by (simp add: pointer_in_range_def do_call_def)
    then have r: "pointer_in_range ?s"
      using False by (intro move_pointer_range) (simp_all add: do_call_def)
    have "scaleHistory d self = apply_pointer ?s"
      using False by (simp add: scaleHistory_def Let_def do_call_def)
    then show ?thesis
      using r apply_pointer_in_range[OF r] by (simp add: pointer_in_range_def do_call_def)
  qed
  have stay: "axHistoryPointer (final_state (scaleHistory d self)) = axHistoryPointer self"
    if "d = - 1 \<and> axHistoryPointer self = - 1
        \<or> d = 1 \<and> axHistoryPointer self = int (length (axHistory self)) - 1"
    using that by (auto simp: scaleHistory_state move_pointer_def)
  show ?thesis
    using scaleHistory_emits[of self d] scaleHistory_state[of d self] range stay by blast
qed

theorem scaleHistory_clamps_and_emits_witness:
  "(1::int) \<in> {- 1, 0, 1}
   \<and> pointer_in_range (example_box 1)
   \<and> pointer_in_range (final_state (scaleHistory 1 (example_box 1)))
   \<and> axHistoryPointer (final_state (scaleHistory 1 (example_box 1))) = 1
   \<and> pointer_in_range (example_box (- 1))
   \<and> axHistoryPointer (final_state (scaleHistory (- 1) (example_box (- 1)))) = - 1
   \<and> filter is_history_emit (new_calls empty_box (final_state (scaleHistory 0 empty_box)))
       = [sigHistoryChanged_emit 0]"
proof -
  have d1: "(1::int) \<in> {- 1, 0, 1}" and d2: "(- 1::int) \<in> {- 1, 0, 1}"
    and d3: "(0::int) \<in> {- 1, 0, 1}"
    by simp_all
  have r1: "pointer_in_range (example_box 1)" and r2: "pointer_in_range (example_box (- 1))"
    by (simp_all add: pointer_in_range_def example_box_def)
  have top: "(1::int) = 1 \<and> axHistoryPointer (example_box 1)
               = int (length (axHistory (example_box 1))) - 1"
    by (simp add: example_box_def)
  have bot: "(- 1::int) = - 1 \<and> axHistoryPointer (example_box (- 1)) = - 1"
    by (simp add: example_box_def)
  from scaleHistory_clamps_and_emits [OF d1, of "example_box 1"] r1 top
  have a: "pointer_in_range (final_state (scaleHistory 1 (example_box 1)))
           \<and> axHistoryPointer (final_state (scaleHistory 1 (example_box 1)))
               = axHistoryPointer (example_box 1)"
    by blast
  from scaleHistory_clamps_and_emits [OF d2, of "example_box (- 1)"] bot
  have b: "axHistoryPointer (final_state (scaleHistory (- 1) (example_box (- 1))))
             = axHistoryPointer (example_box (- 1))"
    by blast
  from scaleHistory_clamps_and_emits [OF d3, of empty_box]
  have c: "filter is_history_emit (new_calls empty_box (final_state (scaleHistory 0 empty_box)))
             = [sigHistoryChanged_emit 0]"
    by blast
  from a b c r1 r2 show ?thesis by (simp add: example_box_def)
qed

text \<open>
  C3. For d in {-1, 0, 1}, a non-empty axHistory and a pointer inside
  [-1, len(axHistory) - 1], scaleHistory returns after exactly two calls: the emission of
  sigHistoryChanged, then enableAutoRange if the updated pointer is -1 and otherwise
  showAxRect on axHistory[axHistoryPointer], the updated pointer being a valid index. The
  reset d = 0 always leaves the pointer at -1, and so does a backward step from position 0.
\<close>

theorem scaleHistory_shows_selected_view:
  assumes "d \<in> {- 1, 0, 1}" and "axHistory self \<noteq> []" and "pointer_in_range self"
  shows "has_returned (scaleHistory d self)
    \<and> new_calls self (final_state (scaleHistory d self)) =
        [sigHistoryChanged_emit d,
         if axHistoryPointer (final_state (scaleHistory d self)) = - 1 then enableAutoRange
         else showAxRect (axHistory self ! nat (axHistoryPointer (final_state (scaleHistory d self))))]
    \<and> (axHistoryPointer (final_state (scaleHistory d self)) \<noteq> - 1 \<longrightarrow>
         0 \<le> axHistoryPointer (final_state (scaleHistory d self))
         \<and> axHistoryPointer (final_state (scaleHistory d self)) < int (length (axHistory self)))
    \<and> (d = 0 \<longrightarrow> axHistoryPointer (final_state (scaleHistory d self)) = - 1)
    \<and> (d = - 1 \<and> axHistoryPointer self = 0 \<longrightarrow>
         axHistoryPointer (final_state (scaleHistory d self)) = - 1)"
proof -
  let ?s = "move_pointer d (do_call (sigHistoryChanged_emit d) self)"
  have "pointer_in_range (do_call (sigHistoryChanged_emit d) self)"
    using assms(3) by (simp add: pointer_in_range_def do_call_def)
  then have r: "pointer_in_range ?s"
    using assms(2) by (intro move_pointer_range) (simp_all add: do_call_def)
  have sh: "scaleHistory d self = apply_pointer ?s"
    using assms(2) by (simp add: scaleHistory_def Let_def do_call_def)
  have ptr: "axHistoryPointer (final_state (scaleHistory d self)) = axHistoryPointer ?s"
    unfolding sh by (simp add: apply_pointer_state)
  have hist: "axHistory ?s = axHistory self" and cl: "calls ?s = calls self @ [sigHistoryChanged_emit d]"
    by (simp_all add: move_pointer_fields do_call_def)
  have ret: "has_returned (scaleHistory d self)"
    unfolding sh apply_pointer_in_range[OF r] by simp
  have "calls (final_state (scaleHistory d self)) = calls self @
        [sigHistoryChanged_emit d,
         if axHistoryPointer ?s = - 1 then enableAutoRange
         else showAxRect (axHistory self ! nat (axHistoryPointer ?s))]"
    unfolding sh apply_pointer_in_range[OF r] by (simp add: calls_do_call cl hist)
  then have nc: "new_calls self (final_state (scaleHistory d self)) =
        [sigHistoryChanged_emit d,
         if axHistoryPointer ?s = - 1 then enableAutoRange
         else showAxRect (axHistory self ! nat (axHistoryPointer ?s))]"
    by (rule new_calls_append)
  have bounds: "axHistoryPointer ?s \<noteq> - 1 \<longrightarrow>
      0 \<le> axHistoryPointer ?s \<and> axHistoryPointer ?s < int (length (axHistory self))"
    using r hist by (auto simp: pointer_in_range_def)
  have reset: "d = 0 \<longrightarrow> axHistoryPointer ?s = - 1"
    by (simp add: move_pointer_def)
  have bstep: "d = - 1 \<and> axHistoryPointer self = 0 \<longrightarrow> axHistoryPointer ?s = - 1"
    by (simp add: move_pointer_def do_call_def)
  show ?thesis
    unfolding ptr using ret nc bounds reset bstep by simp
qed

theorem scaleHistory_shows_selected_view_witness:
  "(- 1::int) \<in> {- 1, 0, 1} \<and> axHistory (example_box 0) \<noteq> [] \<and> pointer_in_range (example_box 0)
   \<and> new_calls (example_box 0) (final_state (scaleHistory (- 1) (example_box 0)))
       = [sigHistoryChanged_emit (- 1), enableAutoRange]
   \<and> (1::int) \<in> {- 1, 0, 1}
   \<and> new_calls (example_box 0) (final_state (scaleHistory 1 (example_box 0)))
       = [sigHistoryChanged_emit 1, showAxRect 20]
   \<and> (0::int) \<in> {- 1, 0, 1} \<and> pointer_in_range (example_box 1)
   \<and> new_calls (example_box 1) (final_state (scaleHistory 0 (example_box 1)))
       = [sigHistoryChanged_emit 0, enableAutoRange]"
proof -
  have d1: "(1::int) \<in> {- 1, 0, 1}" and d2: "(- 1::int) \<in> {- 1, 0, 1}"
    and d3: "(0::int) \<in> {- 1, 0, 1}"
    by simp_all
  have n0: "axHistory (example_box 0) \<noteq> []" and n1: "axHistory (example_box 1) \<noteq> []"
    by (simp_all add: example_box_def)
  have r0: "pointer_in_range (example_box 0)" and r1: "pointer_in_range (example_box 1)"
    by (simp_all add: pointer_in_range_def example_box_def)
  have p1: "axHistoryPointer (final_state (scaleHistory 1 (example_box 0))) = 0 + 1"
    by (simp add: scaleHistory_state move_pointer_def) (simp add: example_box_def)
  have z: "(- 1::int) = - 1 \<and> axHistoryPointer (example_box 0) = 0"
    by (simp add: example_box_def)
  from scaleHistory_shows_selected_view [OF d2 n0 r0] z
  have a: "new_calls (example_box 0) (final_state (scaleHistory (- 1) (example_box 0)))
       = [sigHistoryChanged_emit (- 1), enableAutoRange]"
    by simp
  from scaleHistory_shows_selected_view [OF d1 n0 r0] p1
  have b: "new_calls (example_box 0) (final_state (scaleHistory 1 (example_box 0)))
       = [sigHistoryChanged_emit 1, showAxRect 20]"
    by (simp add: example_box_def)
  from scaleHistory_shows_selected_view [OF d3 n1 r1]
  have c: "new_calls (example_box 1) (final_state (scaleHistory 0 (example_box 1)))
       = [sigHistoryChanged_emit 0, enableAutoRange]"
    by simp
  from a b c d1 d2 d3 n0 r0 r1 show ?thesis by blast
qed

text \<open>
  C4. keyPressEvent accepts the event and takes a backward step, scaleHistory(-1), for the
  key whose text is \<open>-\<close>, a forward step, scaleHistory(1), for a key whose text is \<open>+\<close> or
  \<open>=\<close>, and a reset, scaleHistory(0), for the Backspace key (the text is tested first, so
  this is a Backspace whose text is none of the three). Every other key leaves the view box
  as it was, with no history navigation, and the event ignored.
\<close>

theorem keyPressEvent_dispatch:
  "(text_of ev = ''-'' \<longrightarrow>
      keyPressEvent ev self = with_event (ev\<lparr>isAccepted := True\<rparr>) (scaleHistory (- 1) self))
   \<and> (text_of ev = ''+'' \<or> text_of ev = ''='' \<longrightarrow>
      keyPressEvent ev self = with_event (ev\<lparr>isAccepted := True\<rparr>) (scaleHistory 1 self))
   \<and> (key ev = Key_Backspace \<and> text_of ev \<notin> {''-'', ''+'', ''=''} \<longrightarrow>
      keyPressEvent ev self = with_event (ev\<lparr>isAccepted := True\<rparr>) (scaleHistory 0 self))
   \<and> (key ev \<noteq> Key_Backspace \<and> text_of ev \<notin> {''-'', ''+'', ''=''} \<longrightarrow>
      keyPressEvent ev self = Returned (ev\<lparr>isAccepted := False\<rparr>, self))"
  by (simp add: keyPressEvent_def Let_def)

theorem keyPressEvent_dispatch_witness:
  "keyPressEvent \<lparr>text_of = ''-'', key = 0x2d, isAccepted = False\<rparr> (example_box 1)
     = with_event \<lparr>text_of = ''-'', key = 0x2d, isAccepted = True\<rparr>
         (scaleHistory (- 1) (example_box 1))
   \<and> keyPressEvent \<lparr>text_of = ''+'', key = 0x2b, isAccepted = False\<rparr> (example_box 0)
     = with_event \<lparr>text_of = ''+'', key = 0x2b, isAccepted = True\<rparr>
         (scaleHistory 1 (example_box 0))
   \<and> keyPressEvent \<lparr>text_of = ''='', key = 0x3d, isAccepted = False\<rparr> (example_box 0)
     = with_event \<lparr>text_of = ''='', key = 0x3d, isAccepted = True\<rparr>
         (scaleHistory 1 (example_box 0))
   \<and> keyPressEvent \<lparr>text_of = [CHR 0x08], key = Key_Backspace, isAccepted = False\<rparr> (example_box 1)
     = with_event \<lparr>text_of = [CHR 0x08], key = Key_Backspace, isAccepted = True\<rparr>
         (scaleHistory 0 (example_box 1))
   \<and> keyPressEvent \<lparr>text_of = ''a'', key = 0x41, isAccepted = False\<rparr> (example_box 1)
     = Returned (\<lparr>text_of = ''a'', key = 0x41, isAccepted = False\<rparr>, example_box 1)"
  using keyPressEvent_dispatch [of "\<lparr>text_of = ''-'', key = 0x2d, isAccepted = False\<rparr>"
          "example_box 1"]
        keyPressEvent_dispatch [of "\<lparr>text_of = ''+'', key = 0x2b, isAccepted = False\<rparr>"
          "example_box 0"]
        keyPressEvent_dispatch [of "\<lparr>text_of = ''='', key = 0x3d, isAccepted = False\<rparr>"
          "example_box 0"]
        keyPressEvent_dispatch [of "\<lparr>text_of = [CHR 0x08], key = Key_Backspace,
          isAccepted = False\<rparr>" "example_box 1"]
        keyPressEvent_dispatch [of "\<lparr>text_of = ''a'', key = 0x41, isAccepted = False\<rparr>"
          "example_box 1"]
  by (simp add: Key_Backspace_def)

end
